theory Spec2Isabelle
  imports Complex_Main "HOL-Library.Sublist"
begin

section \<open>Values of the HTTP layer\<close>

text \<open>
  A request body is what \<^verbatim>\<open>express.json()\<close> delivers: an object whose properties hold
  JSON values. \<open>JUndefined\<close> is the value of a property that is absent. \<open>JNum\<close> carries the
  integer-valued numbers below \<open>10^21\<close> in magnitude, the ones JavaScript prints in plain
  decimal notation.
\<close>

datatype jsval =
    JUndefined
  | JNull
  | JBool bool
  | JNum int
  | JStr string
  | JArr "jsval list"
  | JObj "(string \<times> jsval) list"

text \<open>
  Values written into a response. \<open>Time t\<close> is the string \<^verbatim>\<open>new Date(t).toISOString()\<close>,
  carried as the epoch milliseconds \<open>t\<close> it denotes; \<open>Number\<close> is a numeric field.
\<close>

datatype json =
    Null
  | Bool bool
  | Str string
  | Time int
  | Number rat
  | Obj "(string \<times> json) list"

fun decimal :: "nat \<Rightarrow> string" where
  "decimal n =
     (if n < 10 then [''0123456789'' ! n]
      else decimal (n div 10) @ [''0123456789'' ! (n mod 10)])"

declare decimal.simps [simp del]

text \<open>\<^verbatim>\<open>String(v)\<close>: an array prints its elements separated by commas, with \<^verbatim>\<open>null\<close> and
  \<^verbatim>\<open>undefined\<close> elements printed as the empty string; an object prints as
  \<^verbatim>\<open>[object Object]\<close>.\<close>

fun js_String :: "jsval \<Rightarrow> string"
  and array_join :: "jsval list \<Rightarrow> string"
where
  "js_String JUndefined = ''undefined''"
| "js_String JNull = ''null''"
| "js_String (JBool b) = (if b then ''true'' else ''false'')"
| "js_String (JNum n) = (if n < 0 then CHR ''-'' # decimal (nat (- n)) else decimal (nat n))"
| "js_String (JStr s) = s"
| "js_String (JArr xs) = array_join xs"
| "js_String (JObj kvs) = ''[object Object]''"
| "array_join [] = []"
| "array_join [x] = (if x = JUndefined \<or> x = JNull then [] else js_String x)"
| "array_join (x # y # ys) =
     (if x = JUndefined \<or> x = JNull then [] else js_String x) @ '','' @ array_join (y # ys)"

text \<open>The properties of the body, in the order of \<^verbatim>\<open>Object.keys\<close>; a key occurs once.\<close>

type_synonym request_body = "(string \<times> jsval) list"

text \<open>\<^verbatim>\<open>req.body[key]\<close>: a property that is absent reads as \<^verbatim>\<open>undefined\<close>.\<close>

definition body_get :: "request_body \<Rightarrow> string \<Rightarrow> jsval" where
  "body_get body key = (case map_of body key of None \<Rightarrow> JUndefined | Some v \<Rightarrow> v)"

text \<open>\<^verbatim>\<open>obj.name\<close> on a response value that is not \<^verbatim>\<open>null\<close>; \<open>Null\<close> stands for
  \<^verbatim>\<open>undefined\<close> here, the value of a property that is absent.\<close>

fun field :: "string \<Rightarrow> json \<Rightarrow> json" where
  "field k (Obj kvs) = (case map_of kvs k of None \<Rightarrow> Null | Some v \<Rightarrow> v)"
| "field k _ = Null"

section \<open>The server: environment, job store and handlers\<close>

type_synonym environ = "string \<rightharpoonup> string"

text \<open>A settled promise: the value it resolved to, or the message of the error it rejected with.\<close>

datatype 'a promise = Resolved 'a | Rejected string

text \<open>
  The job object of \<^verbatim>\<open>app.post('/automate')\<close>. The timestamps are ISO strings, carried as
  epoch milliseconds; \<open>completedAt\<close> is \<open>None\<close> while it is \<^verbatim>\<open>null\<close>. \<open>result\<close> holds
  \<open>Null\<close> or what the run resolved to.
\<close>

record job =
  job_id :: string
  status :: string
  createdAt :: int
  result :: json
  completedAt :: "int option"

text \<open>
  The module state of the server. \<open>jobs\<close> is the \<^verbatim>\<open>Map\<close>; each stored job object carries
  its identity, because the background run that was started with it keeps a reference to that
  object and writes to it when it ends. \<open>pending\<close> lists the background runs that have not
  ended yet (object identity and job id), \<open>fresh\<close> is the identity of the next object.
\<close>

record server =
  env :: environ
  jobs :: "string \<rightharpoonup> nat \<times> job"
  pending :: "(nat \<times> string) list"
  fresh :: nat

text \<open>Lines 77-81: \<^verbatim>\<open>Object.keys(req.body).forEach(key => ...)\<close>.\<close>

definition set_env_key :: "request_body \<Rightarrow> environ \<Rightarrow> string \<Rightarrow> environ" where
  "set_env_key body e key =
     (if body_get body key \<noteq> JUndefined \<and> body_get body key \<noteq> JNull
      then e(key \<mapsto> js_String (body_get body key)) else e)"

definition update_env_from_body :: "request_body \<Rightarrow> environ \<Rightarrow> environ" where
  "update_env_from_body body e = foldl (set_env_key body) e (map fst body)"

text \<open>Lines 84-86: headless mode is forced in production.\<close>

definition ensure_headless :: "environ \<Rightarrow> environ" where
  "ensure_headless e =
     (if e ''NODE_ENV'' = Some ''production'' then e(''HEADLESS'' \<mapsto> ''true'') else e)"

text \<open>Line 89: \<^verbatim>\<open>String(req.body.waitForResponse ?? 'true') === 'true'\<close>.\<close>

definition waitForResponse :: "request_body \<Rightarrow> bool" where
  "waitForResponse body =
     (let v = body_get body ''waitForResponse''
      in js_String (if v = JUndefined \<or> v = JNull then JStr ''true'' else v) = ''true'')"

text \<open>
  \<^verbatim>\<open>app.post('/automate')\<close>. \<open>automation e\<close> is what
  \<^verbatim>\<open>new EOXSPlaywrightAutomationWithLog().run()\<close> settles to when it is started in the
  environment \<open>e\<close>; \<open>uuid\<close> is the value of \<^verbatim>\<open>uuidv4()\<close>, \<open>t_job\<close> and \<open>t_resp\<close> are the clock
  readings taken for the job and for the response. The handler returns the HTTP status with
  the JSON body and the new module state. A blocking request is one step of the model: what
  other requests do to the environment while its run is awaited is not part of it.

  In the blocking branch the environment is put back as soon as the run has resolved, before
  the response is built from \<^verbatim>\<open>result.success\<close>; reading that property of \<^verbatim>\<open>null\<close> would
  throw a \<open>TypeError\<close>, but no run resolves to \<^verbatim>\<open>null\<close> (lemma \<open>run_settles\<close> below).
  \<open>originalEnv\<close> is assigned back only on that path: the
  \<^verbatim>\<open>catch\<close> block tests \<^verbatim>\<open>typeof originalEnv !== 'undefined'\<close>, but \<open>originalEnv\<close> is a
  \<^verbatim>\<open>const\<close> of the \<^verbatim>\<open>try\<close> block, so in the \<^verbatim>\<open>catch\<close> block the name is unbound, the
  test is false and nothing is assigned.
\<close>

definition post_automate ::
  "(environ \<Rightarrow> json promise) \<Rightarrow> string \<Rightarrow> int \<Rightarrow> int \<Rightarrow> request_body \<Rightarrow> server
     \<Rightarrow> (nat \<times> json) \<times> server"
where
  "post_automate automation uuid t_job t_resp body s =
     (let originalEnv = env s;
          e = ensure_headless (update_env_from_body body (env s))
      in if \<not> waitForResponse body then
           (let jobId = uuid;
                job = \<lparr>job_id = jobId, status = ''running'', createdAt = t_job,
                       result = Null, completedAt = None\<rparr>
            in ((202, Obj [(''accepted'', Bool True),
                           (''message'', Str ''Automation started''),
                           (''jobId'', Str jobId),
                           (''statusUrl'', Str (''/status/'' @ jobId)),
                           (''timestamp'', Time t_resp)]),
                s\<lparr>env := e,
                  jobs := (jobs s)(jobId \<mapsto> (fresh s, job)),
                  pending := pending s @ [(fresh s, jobId)],
                  fresh := Suc (fresh s)\<rparr>))
         else
           (case automation e of
              Resolved res \<Rightarrow>
                if res = Null then
                  ((500, Obj [(''success'', Bool False),
                              (''error'', Str ''Cannot read properties of null (reading 'success')''),
                              (''timestamp'', Time t_resp)]),
                   s\<lparr>env := originalEnv\<rparr>)
                else
                  ((200, Obj [(''success'', field ''success'' res),
                              (''data'', res),
                              (''timestamp'', Time t_resp)]),
                   s\<lparr>env := originalEnv\<rparr>)
            | Rejected msg \<Rightarrow>
                ((500, Obj [(''success'', Bool False),
                            (''error'', Str msg),
                            (''timestamp'', Time t_resp)]),
                 s\<lparr>env := e\<rparr>)))"

text \<open>
  Lines 103-115, the end of a background run: the job object \<open>ref\<close> that the run was started
  with is written. The object is seen through the store only while the store still holds it
  under its id.
\<close>

definition finish_job :: "json promise \<Rightarrow> int \<Rightarrow> job \<Rightarrow> job" where
  "finish_job outcome t job =
     (case outcome of
        Resolved res \<Rightarrow> job\<lparr>status := ''completed'', result := res, completedAt := Some t\<rparr>
      | Rejected msg \<Rightarrow>
          job\<lparr>status := ''failed'',
              result := Obj [(''success'', Bool False), (''error'', Str msg)],
              completedAt := Some t\<rparr>)"

definition background_done :: "nat \<Rightarrow> string \<Rightarrow> json promise \<Rightarrow> int \<Rightarrow> server \<Rightarrow> server" where
  "background_done ref jobId outcome t s =
     (if (ref, jobId) \<in> set (pending s) then
        s\<lparr>pending := removeAll (ref, jobId) (pending s),
          jobs := (case jobs s jobId of
                     Some (r, job) \<Rightarrow>
                       if r = ref then (jobs s)(jobId \<mapsto> (r, finish_job outcome t job)) else jobs s
                   | None \<Rightarrow> jobs s)\<rparr>
      else s)"

text \<open>\<^verbatim>\<open>app.get('/status/:jobId')\<close>; it does not change the state.\<close>

definition get_status :: "string \<Rightarrow> server \<Rightarrow> nat \<times> json" where
  "get_status jobId s =
     (case jobs s jobId of
        None \<Rightarrow>
          (404, Obj [(''success'', Bool False),
                     (''error'', Str ''Job not found''),
                     (''jobId'', Str jobId)])
      | Some (r, job) \<Rightarrow>
          (200, Obj [(''jobId'', Str jobId),
                     (''status'', Str (status job)),
                     (''result'', result job),
                     (''createdAt'', Time (createdAt job)),
                     (''completedAt'', (case completedAt job of None \<Rightarrow> Null | Some c \<Rightarrow> Time c)),
                     (''duration'',
                        (case completedAt job of
                           None \<Rightarrow> Null
                         | Some c \<Rightarrow> Number (of_int (c - createdAt job) / 1000)))]))"

text \<open>
  The invariant of a job object: its status is one of the three words the handler writes, and
  \<open>completedAt\<close> and \<open>result\<close> are \<^verbatim>\<open>null\<close> exactly while it is running.
\<close>

definition job_ok :: "job \<Rightarrow> bool" where
  "job_ok j \<longleftrightarrow>
     status j \<in> {''running'', ''completed'', ''failed''}
     \<and> (completedAt j = None \<longleftrightarrow> status j = ''running'')
     \<and> (result j = Null \<longleftrightarrow> status j = ''running'')"

definition store_ok :: "server \<Rightarrow> bool" where
  "store_ok s \<longleftrightarrow> (\<forall>(r, j) \<in> ran (jobs s). job_ok j)"

definition init_server :: "environ \<Rightarrow> server" where
  "init_server e = \<lparr>env = e, jobs = Map.empty, pending = [], fresh = 0\<rparr>"

section \<open>The automation object and its \<open>run\<close> method\<close>

text \<open>\<^verbatim>\<open>CONFIG.ticketDetails\<close>, a module-level object that every automation object reads and
  writes.\<close>

record ticket_details =
  title :: string
  customer :: string
  assignedTo :: string
  description :: string
  logNote :: string

definition CONFIG_ticketDetails :: ticket_details where
  "CONFIG_ticketDetails =
     \<lparr>title = ''Sample'', customer = ''Discount Pipe & Steel'', assignedTo = ''Sahaj Katiyar'',
      description = '''', logNote = ''Email received from customer''\<rparr>"

text \<open>JavaScript truthiness of \<^verbatim>\<open>process.env.NAME\<close>: an unset variable reads as
  \<^verbatim>\<open>undefined\<close>, and both \<^verbatim>\<open>undefined\<close> and the empty string are falsy.\<close>

fun truthy :: "string option \<Rightarrow> bool" where
  "truthy None = False"
| "truthy (Some v) = (v \<noteq> [])"

text \<open>\<^verbatim>\<open>a || b\<close> on two such values.\<close>

definition js_or :: "string option \<Rightarrow> string option \<Rightarrow> string option" where
  "js_or a b = (if truthy a then a else b)"

text \<open>Assigning a value that was tested truthy to a string property.\<close>

fun assigned :: "string option \<Rightarrow> string \<Rightarrow> string" where
  "assigned (Some v) old = v"
| "assigned None old = old"

definition updateTicketDetailsFromEnv :: "environ \<Rightarrow> ticket_details \<Rightarrow> ticket_details" where
  "updateTicketDetailsFromEnv e c0 =
     (let c1 = (if truthy (e ''EMAIL_SUBJECT'')
                then c0\<lparr>title := assigned (e ''EMAIL_SUBJECT'') (title c0)\<rparr> else c0);
          c2 = (if truthy (e ''EMAIL_CUSTOMER'')
                then c1\<lparr>customer := assigned (e ''EMAIL_CUSTOMER'') (customer c1)\<rparr> else c1);
          c3 = (if truthy (e ''EMAIL_BODY'')
                then c2\<lparr>description := assigned (e ''EMAIL_BODY'') (description c2),
                        logNote := assigned (e ''EMAIL_BODY'') (logNote c2)\<rparr> else c2);
          c4 = (if truthy (e ''TICKET_TITLE'')
                then c3\<lparr>title := assigned (e ''TICKET_TITLE'') (title c3)\<rparr> else c3)
      in if truthy (e ''LOG_NOTE'') \<or> truthy (e ''EMAIL_SUBJECT'')
         then c4\<lparr>logNote := assigned (js_or (e ''LOG_NOTE'') (e ''EMAIL_SUBJECT'')) (logNote c4)\<rparr>
         else c4)"

text \<open>
  The automation object: \<open>world\<close> is everything outside the program that its methods act on
  (the browser, the page, the file system), \<open>browser\<close> tells whether \<^verbatim>\<open>this.browser\<close> is
  assigned, \<open>details\<close> is \<^verbatim>\<open>CONFIG.ticketDetails\<close>.
\<close>

record 'w robot =
  world :: 'w
  browser :: bool
  ticketId :: "string option"
  details :: ticket_details

text \<open>The constructor.\<close>

definition new_automation :: "environ \<Rightarrow> ticket_details \<Rightarrow> 'w \<Rightarrow> 'w robot" where
  "new_automation e c w =
     \<lparr>world = w, browser = False, ticketId = None, details = updateTicketDetailsFromEnv e c\<rparr>"

text \<open>
  The page-driving methods that \<open>run\<close> calls, as functions of the world. Each of
  \<open>login\<close> ... \<open>addLogNote\<close> encloses its body in \<^verbatim>\<open>try\<close>/\<^verbatim>\<open>catch\<close> and returns a
  boolean; \<open>submitTicket\<close> also tells what it assigned to \<^verbatim>\<open>this.ticketId\<close>, if it did (the
  text of the element, which may be \<^verbatim>\<open>null\<close>);
  \<open>captureScreenshot\<close> catches every error and returns nothing that is used; \<open>init\<close> rethrows
  (the message, and whether \<^verbatim>\<open>this.browser\<close> was assigned before that); \<open>waitForTimeout\<close> and
  \<open>browserClose\<close> are calls of the browser library, which may throw.
\<close>

record 'w methods =
  init :: "'w \<Rightarrow> (string option \<times> bool) \<times> 'w"
  login :: "ticket_details \<Rightarrow> 'w \<Rightarrow> bool \<times> 'w"
  navigateToProjects :: "ticket_details \<Rightarrow> 'w \<Rightarrow> bool \<times> 'w"
  openTicketByTitle :: "string \<Rightarrow> ticket_details \<Rightarrow> 'w \<Rightarrow> bool \<times> 'w"
  clickCreate :: "ticket_details \<Rightarrow> 'w \<Rightarrow> bool \<times> 'w"
  fillTicketForm :: "ticket_details \<Rightarrow> 'w \<Rightarrow> bool \<times> 'w"
  submitTicket :: "ticket_details \<Rightarrow> 'w \<Rightarrow> (bool \<times> string option option) \<times> 'w"
  closePopupWithDiscard :: "ticket_details \<Rightarrow> 'w \<Rightarrow> bool \<times> 'w"
  clickOnCreatedTicket :: "ticket_details \<Rightarrow> 'w \<Rightarrow> bool \<times> 'w"
  editTicketDetails :: "ticket_details \<Rightarrow> 'w \<Rightarrow> bool \<times> 'w"
  addLogNote :: "ticket_details \<Rightarrow> 'w \<Rightarrow> bool \<times> 'w"
  captureScreenshot :: "string \<Rightarrow> 'w \<Rightarrow> 'w"
  waitForTimeout :: "nat \<Rightarrow> 'w \<Rightarrow> string option \<times> 'w"
  browserClose :: "'w \<Rightarrow> string option \<times> 'w"

text \<open>The calls that \<open>run\<close> makes are recorded in order, each with its boolean result
  (for a call without one: whether it returned without throwing).\<close>

datatype call =
    Init
  | Login
  | NavigateToProjects
  | OpenTicketByTitle string
  | ClickCreate
  | FillTicketForm
  | SubmitTicket
  | ClosePopupWithDiscard
  | WaitForTimeout nat
  | ClickOnCreatedTicket
  | EditTicketDetails
  | AddLogNote
  | CaptureScreenshot string
  | BrowserClose

type_synonym 'w run_state = "'w robot \<times> (call \<times> bool) list"

text \<open>The result of the \<^verbatim>\<open>try\<close> block: \<open>Inl msg\<close> when an \<open>Error\<close> with that message was
  thrown, \<open>Inr v\<close> when \<open>v\<close> was returned.\<close>

type_synonym 'w tried = "(string + json) \<times> 'w run_state"

text \<open>\<^verbatim>\<open>const ok = await this.step(); if (!ok) throw new Error(msg);\<close> followed by \<open>k\<close>.\<close>

definition require ::
  "call \<Rightarrow> (ticket_details \<Rightarrow> 'w \<Rightarrow> bool \<times> 'w) \<Rightarrow> string \<Rightarrow> ('w run_state \<Rightarrow> 'w tried)
     \<Rightarrow> 'w run_state \<Rightarrow> 'w tried"
where
  "require c f msg k st =
     (case st of (r, tr) \<Rightarrow>
        (case f (details r) (world r) of (ok, w) \<Rightarrow>
           if ok then k (r\<lparr>world := w\<rparr>, tr @ [(c, True)])
           else (Inl msg, (r\<lparr>world := w\<rparr>, tr @ [(c, False)]))))"

text \<open>\<^verbatim>\<open>const ok = await this.step();\<close> whose result only feeds a log message, followed
  by \<open>k\<close>.\<close>

definition attempt ::
  "call \<Rightarrow> (ticket_details \<Rightarrow> 'w \<Rightarrow> bool \<times> 'w) \<Rightarrow> ('w run_state \<Rightarrow> 'w tried)
     \<Rightarrow> 'w run_state \<Rightarrow> 'w tried"
where
  "attempt c f k st =
     (case st of (r, tr) \<Rightarrow>
        (case f (details r) (world r) of (ok, w) \<Rightarrow> k (r\<lparr>world := w\<rparr>, tr @ [(c, ok)])))"

text \<open>\<^verbatim>\<open>await this.captureScreenshot(name);\<close>\<close>

definition shot :: "'w methods \<Rightarrow> string \<Rightarrow> 'w run_state \<Rightarrow> 'w run_state" where
  "shot m name st =
     (case st of (r, tr) \<Rightarrow>
        (r\<lparr>world := captureScreenshot m name (world r)\<rparr>, tr @ [(CaptureScreenshot name, True)]))"

text \<open>\<^verbatim>\<open>process.argv.find(arg => arg.startsWith('--subject='))?.split('=')[1]\<close>\<close>

fun split_at :: "char \<Rightarrow> string \<Rightarrow> string list" where
  "split_at c [] = [[]]"
| "split_at c (x # xs) =
     (if x = c then [] # split_at c xs
      else (case split_at c xs of [] \<Rightarrow> [[x]] | p # ps \<Rightarrow> (x # p) # ps))"

definition subject_arg :: "string list \<Rightarrow> string option" where
  "subject_arg argv =
     (case find (prefix ''--subject='') argv of
        None \<Rightarrow> None
      | Some a \<Rightarrow> (case split_at CHR ''='' a of _ # x # _ \<Rightarrow> Some x | _ \<Rightarrow> None))"

text \<open>Line 1916.\<close>

definition logNoteOnlyMode :: "environ \<Rightarrow> bool" where
  "logNoteOnlyMode e \<longleftrightarrow>
     truthy (e ''TICKET_TITLE'') \<and> (truthy (e ''LOG_NOTE'') \<or> truthy (e ''EMAIL_SUBJECT''))"

text \<open>Lines 1936-1952, the branch taken in log-note-only mode.\<close>

definition run_log_note_only :: "'w methods \<Rightarrow> 'w run_state \<Rightarrow> 'w tried" where
  "run_log_note_only m st =
     require (OpenTicketByTitle (title (details (fst st))))
       (openTicketByTitle m (title (details (fst st))))
       (''Ticket not found: '' @ title (details (fst st)))
       (\<lambda>st. require AddLogNote (addLogNote m) ''Failed to add log note''
          (\<lambda>st. (Inr (Obj [(''success'', Bool True), (''ticketId'', Null)]),
                 shot m ''after_log_note'' st))
          (shot m ''after_open_existing_ticket'' st))
       st"

text \<open>Lines 1989-2013: editing and the log note do not abort the run; the result carries
  \<^verbatim>\<open>this.ticketId\<close> when it is truthy.\<close>

definition edit_and_note :: "'w methods \<Rightarrow> 'w run_state \<Rightarrow> 'w tried" where
  "edit_and_note m =
     attempt EditTicketDetails (editTicketDetails m)
       (\<lambda>st1. attempt AddLogNote (addLogNote m)
          (\<lambda>st2. (case shot m ''after_log_note'' st2 of (r, tr) \<Rightarrow>
             (Inr (if truthy (ticketId r)
                   then Obj [(''success'', Bool True), (''ticketId'', Str (assigned (ticketId r) []))]
                   else Obj [(''success'', Bool True), (''ticketId'', Null)]),
              (r, tr))))
          (shot m ''after_ticket_edit'' st1))"

text \<open>Lines 1976-1987: close the popup, wait, open the created ticket.\<close>

definition open_created :: "'w methods \<Rightarrow> 'w run_state \<Rightarrow> 'w tried" where
  "open_created m =
     attempt ClosePopupWithDiscard (closePopupWithDiscard m)
       (\<lambda>st. (case st of (r, tr) \<Rightarrow>
          (case waitForTimeout m 3000 (world r) of
             (Some msg, w) \<Rightarrow> (Inl msg, (r\<lparr>world := w\<rparr>, tr @ [(WaitForTimeout 3000, False)]))
           | (None, w) \<Rightarrow>
               require ClickOnCreatedTicket (clickOnCreatedTicket m)
                 ''Failed to click on created ticket'' (edit_and_note m)
                 (r\<lparr>world := w\<rparr>, tr @ [(WaitForTimeout 3000, True)]))))"

text \<open>Lines 1969-1974: \<open>submitTicket\<close>, which also assigns \<^verbatim>\<open>this.ticketId\<close>.\<close>

definition submit :: "'w methods \<Rightarrow> ('w run_state \<Rightarrow> 'w tried) \<Rightarrow> 'w run_state \<Rightarrow> 'w tried" where
  "submit m k st =
     (case st of (r, tr) \<Rightarrow>
        (case submitTicket m (details r) (world r) of ((ok, captured), w) \<Rightarrow>
           (let r1 = r\<lparr>world := w,
                      ticketId := (case captured of None \<Rightarrow> ticketId r | Some tid \<Rightarrow> tid)\<rparr>
            in if ok then k (r1, tr @ [(SubmitTicket, True)])
               else (Inl ''Failed to submit ticket'', (r1, tr @ [(SubmitTicket, False)])))))"

text \<open>Lines 1954-2013, the default flow.\<close>

definition run_default :: "'w methods \<Rightarrow> 'w run_state \<Rightarrow> 'w tried" where
  "run_default m =
     require ClickCreate (clickCreate m) ''Failed to click Create''
       (\<lambda>st1. require FillTicketForm (fillTicketForm m) ''Failed to fill ticket form''
          (\<lambda>st2. submit m (\<lambda>st3. open_created m (shot m ''after_submit'' st3))
             (shot m ''after_form_fill'' st2))
          (shot m ''after_create'' st1))"

text \<open>Lines 1903-1952, the \<^verbatim>\<open>try\<close> block up to the choice of the flow.\<close>

definition run_try :: "'w methods \<Rightarrow> environ \<Rightarrow> string list \<Rightarrow> 'w run_state \<Rightarrow> 'w tried" where
  "run_try m e argv st =
     (case st of (r, tr) \<Rightarrow>
        (case init m (world r) of
           ((Some msg, launched), w) \<Rightarrow>
             (Inl msg, (r\<lparr>world := w, browser := (launched \<or> browser r)\<rparr>, tr @ [(Init, False)]))
         | ((None, launched), w) \<Rightarrow>
             (let emailSubject = js_or (e ''EMAIL_SUBJECT'') (subject_arg argv);
                  c1 = (if truthy emailSubject
                        then (details r)\<lparr>description := assigned emailSubject (description (details r))\<rparr>
                        else details r);
                  providedTicketTitle = js_or (e ''TICKET_TITLE'') (Some (title c1));
                  providedLogNote =
                    js_or (js_or (e ''LOG_NOTE'') (e ''EMAIL_SUBJECT'')) (Some (logNote c1));
                  c2 = (if logNoteOnlyMode e
                        then c1\<lparr>title := assigned providedTicketTitle (title c1),
                                logNote := assigned providedLogNote (logNote c1)\<rparr>
                        else c1)
              in require Login (login m) ''Login failed''
                   (\<lambda>st. require NavigateToProjects (navigateToProjects m)
                            ''Failed to navigate to Projects and select Test Support''
                      (\<lambda>st. (if logNoteOnlyMode e then run_log_note_only m else run_default m)
                               (shot m ''after_test_support_selection'' st))
                      (shot m ''after_login'' st))
                   (r\<lparr>world := w, browser := (launched \<or> browser r), details := c2\<rparr>,
                    tr @ [(Init, True)]))))"

text \<open>
  \<open>run\<close>: the \<^verbatim>\<open>try\<close> block, the \<^verbatim>\<open>catch\<close> block (screenshot, then the failure object is the
  return value) and the \<^verbatim>\<open>finally\<close> block, which closes the browser when there is one. An
  error thrown in the \<^verbatim>\<open>finally\<close> block replaces the return value: the promise rejects.
\<close>

definition run ::
  "'w methods \<Rightarrow> environ \<Rightarrow> string list \<Rightarrow> 'w robot \<Rightarrow> json promise \<times> 'w run_state"
where
  "run m e argv r0 =
     (case (case run_try m e argv (r0, []) of
              (Inr v, st) \<Rightarrow> (v, st)
            | (Inl msg, st) \<Rightarrow>
                (Obj [(''success'', Bool False), (''error'', Str msg)], shot m ''error'' st))
      of (v, (r, tr)) \<Rightarrow>
        if browser r then
          (case browserClose m (world r) of
             (None, w) \<Rightarrow> (Resolved v, (r\<lparr>world := w\<rparr>, tr @ [(BrowserClose, True)]))
           | (Some msg, w) \<Rightarrow> (Rejected msg, (r\<lparr>world := w\<rparr>, tr @ [(BrowserClose, False)])))
        else (Resolved v, (r, tr)))"

section \<open>The states of the server\<close>

text \<open>
  What a run can settle to: it rejects, or it resolves to an object whose \<^verbatim>\<open>success\<close> field
  is a boolean (lemma \<open>run_settles\<close> below).
\<close>

fun settled :: "json promise \<Rightarrow> bool" where
  "settled (Resolved v) = (field ''success'' v = Bool True \<or> field ''success'' v = Bool False)"
| "settled (Rejected msg) = True"

text \<open>
  The states the server reaches from its start: by handling a \<^verbatim>\<open>POST /automate\<close> request,
  whatever the blocking run does, and by a background run ending with an outcome that a run
  can have. The status endpoint does not change the state.
\<close>

inductive reachable :: "server \<Rightarrow> bool" where
  r_start: "reachable (init_server e)"
| r_automate: "reachable s \<Longrightarrow> reachable (snd (post_automate automation uuid t_job t_resp body s))"
| r_done: "reachable s \<Longrightarrow> settled outcome \<Longrightarrow> reachable (background_done ref jobId outcome t s)"

section \<open>Observations on a run\<close>

text \<open>
  The step calls of a trace are the calls of page-driving methods: everything but \<open>init\<close>,
  the screenshots and the closing of the browser.
\<close>

definition is_step :: "call \<Rightarrow> bool" where
  "is_step c = (case c of Init \<Rightarrow> False | CaptureScreenshot n \<Rightarrow> False | BrowserClose \<Rightarrow> False
                | _ \<Rightarrow> True)"

definition step_calls :: "(call \<times> bool) list \<Rightarrow> (call \<times> bool) list" where
  "step_calls tr = filter (\<lambda>x. is_step (fst x)) tr"

definition default_flow :: "call list" where
  "default_flow =
     [Login, NavigateToProjects, ClickCreate, FillTicketForm, SubmitTicket,
      ClosePopupWithDiscard, WaitForTimeout 3000, ClickOnCreatedTicket, EditTicketDetails,
      AddLogNote]"


definition gating_steps :: "call list" where
  "gating_steps =
     [Login, NavigateToProjects, ClickCreate, FillTicketForm, SubmitTicket, ClickOnCreatedTicket]"


fun failed :: "json promise \<Rightarrow> bool" where
  "failed (Resolved v) = (field ''success'' v = Bool False)"
| "failed (Rejected msg) = True"

definition no_abort :: "(call \<times> bool) list \<Rightarrow> bool" where
  "no_abort tr \<longleftrightarrow>
     (\<forall>x \<in> set tr. fst x \<in> set gating_steps \<or> fst x = Init \<or> fst x = WaitForTimeout 3000 \<longrightarrow> snd x)"

definition no_failure :: "(call \<times> bool) list \<Rightarrow> bool" where
  "no_failure tr \<longleftrightarrow> (\<forall>x \<in> set tr. fst x \<in> set gating_steps \<longrightarrow> snd x)"

definition try_ok :: "'w tried \<Rightarrow> bool" where
  "try_ok t \<longleftrightarrow>
     (case t of (res, (r, tr)) \<Rightarrow>
        prefix (map fst (step_calls tr)) default_flow
        \<and> (\<forall>c \<in> set gating_steps. (c, False) \<in> set tr \<longrightarrow> last (step_calls tr) = (c, False) \<and> isl res)
        \<and> (no_abort tr \<longrightarrow> map fst (step_calls tr) = default_flow \<and> \<not> isl res)
        \<and> (\<not> isl res \<longrightarrow> field ''success'' (projr res) = Bool True))"


definition log_note_flow :: "string \<Rightarrow> call list" where
  "log_note_flow t = [Login, NavigateToProjects, OpenTicketByTitle t, AddLogNote]"

definition log_ok :: "string \<Rightarrow> 'w tried \<Rightarrow> bool" where
  "log_ok t x \<longleftrightarrow>
     (case x of (res, (r, tr)) \<Rightarrow>
        prefix (map fst (step_calls tr)) (log_note_flow t)
        \<and> ((OpenTicketByTitle t, False) \<in> set tr \<longrightarrow> isl res)
        \<and> (\<not> isl res \<longrightarrow>
             projr res = Obj [(''success'', Bool True), (''ticketId'', Null)]
             \<and> map fst (step_calls tr) = log_note_flow t))"

section \<open>Selector fallback chains\<close>

text \<open>
  The calls of the browser library that the email step of \<open>login\<close> makes, as functions of the
  world. \<open>isVisible\<close> answers or throws; the other calls return or throw (the message).
\<close>

record 'w page =
  isVisible :: "string \<Rightarrow> 'w \<Rightarrow> (string + bool) \<times> 'w"
  scrollIntoViewIfNeeded :: "string \<Rightarrow> 'w \<Rightarrow> string option \<times> 'w"
  focus :: "string \<Rightarrow> 'w \<Rightarrow> string option \<times> 'w"
  fill :: "string \<Rightarrow> string \<Rightarrow> 'w \<Rightarrow> string option \<times> 'w"
  type_text :: "string \<Rightarrow> string \<Rightarrow> 'w \<Rightarrow> string option \<times> 'w"
  click :: "string \<Rightarrow> 'w \<Rightarrow> string option \<times> 'w"











section \<open>Example worlds\<close>

text \<open>A scripted world for examples: the list of answers still to be given.\<close>

definition scripted :: "bool list \<Rightarrow> bool \<times> bool list" where
  "scripted bs = (case bs of [] \<Rightarrow> (True, []) | b # bs' \<Rightarrow> (b, bs'))"

definition script_methods :: "string option \<Rightarrow> string option \<Rightarrow> (bool list) methods" where
  "script_methods tid close_err =
     \<lparr>init = (\<lambda>w. ((None, True), w)),
      login = (\<lambda>c. scripted),
      navigateToProjects = (\<lambda>c. scripted),
      openTicketByTitle = (\<lambda>t c. scripted),
      clickCreate = (\<lambda>c. scripted),
      fillTicketForm = (\<lambda>c. scripted),
      submitTicket = (\<lambda>c w. (case scripted w of (b, w') \<Rightarrow> ((b, Some tid), w'))),
      closePopupWithDiscard = (\<lambda>c. scripted),
      clickOnCreatedTicket = (\<lambda>c. scripted),
      editTicketDetails = (\<lambda>c. scripted),
      addLogNote = (\<lambda>c. scripted),
      captureScreenshot = (\<lambda>n w. w),
      waitForTimeout = (\<lambda>n w. (None, w)),
      browserClose = (\<lambda>w. (close_err, w))\<rparr>"


section \<open>The environment update\<close>







section \<open>Handlers and job store\<close>







text \<open>
  Claim C3. For a job id that is not in the store, the status endpoint answers 404 with
  \<^verbatim>\<open>success: false\<close> and the id it was asked for; for a stored job it answers with the job's
  status, result, \<open>createdAt\<close> and \<open>completedAt\<close>, and with a duration that is \<^verbatim>\<open>null\<close> until
  \<open>completedAt\<close> is set and the elapsed seconds from then on.
\<close>

theorem status_endpoint:
  "(jobs s jobId = None \<longrightarrow>
      get_status jobId s =
        (404, Obj [(''success'', Bool False), (''error'', Str ''Job not found''), (''jobId'', Str jobId)]))
   \<and> (jobs s jobId = Some (r, j) \<longrightarrow>
        fst (get_status jobId s) = 200
        \<and> field ''jobId'' (snd (get_status jobId s)) = Str jobId
        \<and> field ''status'' (snd (get_status jobId s)) = Str (status j)
        \<and> field ''result'' (snd (get_status jobId s)) = result j
        \<and> field ''createdAt'' (snd (get_status jobId s)) = Time (createdAt j)
        \<and> field ''completedAt'' (snd (get_status jobId s)) =
             (case completedAt j of None \<Rightarrow> Null | Some c \<Rightarrow> Time c)
        \<and> field ''duration'' (snd (get_status jobId s)) =
             (case completedAt j of None \<Rightarrow> Null
              | Some c \<Rightarrow> Number (of_int (c - createdAt j) / 1000)))"
  by (simp add: get_status_def)

theorem status_endpoint_witness:
  "jobs (init_server Map.empty) ''job-9'' = None
   \<and> get_status ''job-9'' (init_server Map.empty) =
       (404, Obj [(''success'', Bool False), (''error'', Str ''Job not found''),
                  (''jobId'', Str ''job-9'')])
   \<and> field ''duration'' (snd (get_status ''job-1''
         \<lparr>env = Map.empty,
          jobs = [''job-1'' \<mapsto> (0, \<lparr>job_id = ''job-1'', status = ''completed'', createdAt = 1000,
                      result = Obj [(''success'', Bool True), (''ticketId'', Null)],
                      completedAt = Some 4000\<rparr>)],
          pending = [], fresh = 1\<rparr>)) = Number 3"
  using
    status_endpoint [of "init_server Map.empty" "''job-9''"]
    status_endpoint [of
      "\<lparr>env = Map.empty,
        jobs = [''job-1'' \<mapsto> (0, \<lparr>job_id = ''job-1'', status = ''completed'', createdAt = 1000,
                    result = Obj [(''success'', Bool True), (''ticketId'', Null)],
                    completedAt = Some 4000\<rparr>)],
        pending = [], fresh = 1\<rparr>"
      "''job-1''" 0
      "\<lparr>job_id = ''job-1'', status = ''completed'', createdAt = 1000,
        result = Obj [(''success'', Bool True), (''ticketId'', Null)],
        completedAt = Some 4000\<rparr>"]
  by (simp add: init_server_def)

section \<open>The order of the calls in a run\<close>

lemma is_step_simps [simp]:
  "\<not> is_step Init" "\<not> is_step (CaptureScreenshot n)" "\<not> is_step BrowserClose"
  "is_step Login" "is_step NavigateToProjects" "is_step (OpenTicketByTitle t)"
  "is_step ClickCreate" "is_step FillTicketForm" "is_step SubmitTicket"
  "is_step ClosePopupWithDiscard" "is_step (WaitForTimeout k)" "is_step ClickOnCreatedTicket"
  "is_step EditTicketDetails" "is_step AddLogNote"
  by (simp_all add: is_step_def)

lemma step_calls_simps [simp]:
  "step_calls [] = []"
  "step_calls (x # xs) = (if is_step (fst x) then x # step_calls xs else step_calls xs)"
  "step_calls (xs @ ys) = step_calls xs @ step_calls ys"
  by (simp_all add: step_calls_def)

lemma no_abort_simps [simp]:
  "no_abort []"
  "no_abort (x # xs) \<longleftrightarrow>
     (fst x \<in> set gating_steps \<or> fst x = Init \<or> fst x = WaitForTimeout 3000 \<longrightarrow> snd x) \<and> no_abort xs"
  "no_abort (xs @ ys) \<longleftrightarrow> no_abort xs \<and> no_abort ys"
  by (auto simp: no_abort_def)

lemma no_failure_simps [simp]:
  "no_failure []"
  "no_failure (x # xs) \<longleftrightarrow> (fst x \<in> set gating_steps \<longrightarrow> snd x) \<and> no_failure xs"
  "no_failure (xs @ ys) \<longleftrightarrow> no_failure xs \<and> no_failure ys"
  by (auto simp: no_failure_def)

lemma no_failureD:
  assumes "no_failure tr"
  shows "(Login, False) \<notin> set tr" "(NavigateToProjects, False) \<notin> set tr"
    "(ClickCreate, False) \<notin> set tr" "(FillTicketForm, False) \<notin> set tr"
    "(SubmitTicket, False) \<notin> set tr" "(ClickOnCreatedTicket, False) \<notin> set tr"
  using assms by (auto simp: no_failure_def gating_steps_def)

lemma edit_and_note_ok:
  assumes "map fst (step_calls tr) =
             [Login, NavigateToProjects, ClickCreate, FillTicketForm, SubmitTicket,
              ClosePopupWithDiscard, WaitForTimeout 3000, ClickOnCreatedTicket]"
    and "no_failure tr"
  shows "try_ok (edit_and_note m (r, tr))"
proof -
  obtain b1 w1 where e: "editTicketDetails m (details r) (world r) = (b1, w1)"
    by (cases "editTicketDetails m (details r) (world r)")
  obtain b2 w2 where a: "addLogNote m (details r) (captureScreenshot m ''after_ticket_edit'' w1) = (b2, w2)"
    by (cases "addLogNote m (details r) (captureScreenshot m ''after_ticket_edit'' w1)")
  show ?thesis
    unfolding edit_and_note_def attempt_def shot_def try_ok_def
    by (simp add: e a assms default_flow_def gating_steps_def no_failureD [OF assms(2)])
qed


lemma open_created_ok:
  assumes "map fst (step_calls tr) =
             [Login, NavigateToProjects, ClickCreate, FillTicketForm, SubmitTicket]"
    and "no_failure tr"
  shows "try_ok (open_created m (r, tr))"
proof -
  note nf = no_failureD [OF assms(2)]
  obtain b1 w1 where p: "closePopupWithDiscard m (details r) (world r) = (b1, w1)"
    by (cases "closePopupWithDiscard m (details r) (world r)")
  obtain t w2 where wt: "waitForTimeout m 3000 w1 = (t, w2)"
    by (cases "waitForTimeout m 3000 w1")
  obtain b3 w3 where c: "clickOnCreatedTicket m (details r) w2 = (b3, w3)"
    by (cases "clickOnCreatedTicket m (details r) w2")
  show ?thesis
  proof (cases t)
    case (Some msg)
    then show ?thesis
      unfolding open_created_def attempt_def try_ok_def
      by (simp add: p wt assms nf default_flow_def gating_steps_def)
  next
    case None
    show ?thesis
    proof (cases b3)
      case True
      have "\<And>r'. try_ok (edit_and_note m
              (r', tr @ [(ClosePopupWithDiscard, b1), (WaitForTimeout 3000, True),
                         (ClickOnCreatedTicket, True)]))"
        by (rule edit_and_note_ok) (simp_all add: assms gating_steps_def)
      then show ?thesis
        unfolding open_created_def attempt_def require_def
        by (simp add: p wt c None True)
    next
      case False
      then show ?thesis
        unfolding open_created_def attempt_def require_def try_ok_def
        by (simp add: p wt c None assms nf default_flow_def gating_steps_def)
    qed
  qed
qed

lemma run_default_ok:
  assumes "map fst (step_calls tr) = [Login, NavigateToProjects]" and "no_failure tr"
  shows "try_ok (run_default m (r, tr))"
proof -
  note nf = no_failureD [OF assms(2)]
  obtain b1 w1 where c: "clickCreate m (details r) (world r) = (b1, w1)"
    by (cases "clickCreate m (details r) (world r)")
  obtain b2 w2 where f: "fillTicketForm m (details r) (captureScreenshot m ''after_create'' w1) = (b2, w2)"
    by (cases "fillTicketForm m (details r) (captureScreenshot m ''after_create'' w1)")
  obtain b3 tid w3 where s:
    "submitTicket m (details r) (captureScreenshot m ''after_form_fill'' w2) = ((b3, tid), w3)"
    by (cases "submitTicket m (details r) (captureScreenshot m ''after_form_fill'' w2)") auto
  show ?thesis
  proof (cases "b1 \<and> b2 \<and> b3")
    case True
    have "\<And>r'. try_ok (open_created m
            (r', tr @ [(ClickCreate, True), (CaptureScreenshot ''after_create'', True),
                       (FillTicketForm, True), (CaptureScreenshot ''after_form_fill'', True),
                       (SubmitTicket, True), (CaptureScreenshot ''after_submit'', True)]))"
      by (rule open_created_ok) (simp_all add: assms gating_steps_def)
    then show ?thesis
      unfolding run_default_def require_def submit_def shot_def
      using True by (simp add: c f s)
  next
    case False
    then show ?thesis
      unfolding run_default_def require_def submit_def shot_def try_ok_def
      by (auto simp: c f s assms nf default_flow_def gating_steps_def)
  qed
qed

lemma run_try_default_ok:
  assumes "\<not> logNoteOnlyMode e"
  shows "try_ok (run_try m e argv (r, []))"
proof -
  obtain err launched w0 where i: "init m (world r) = ((err, launched), w0)"
    by (cases "init m (world r)") auto
  show ?thesis
  proof (cases err)
    case (Some msg)
    then show ?thesis
      unfolding run_try_def try_ok_def
      by (simp add: i default_flow_def gating_steps_def)
  next
    case None
    define c2 where "c2 =
      (if truthy (js_or (e ''EMAIL_SUBJECT'') (subject_arg argv))
       then (details r)\<lparr>description :=
              assigned (js_or (e ''EMAIL_SUBJECT'') (subject_arg argv)) (description (details r))\<rparr>
       else details r)"
    obtain b1 w1 where l: "login m c2 w0 = (b1, w1)"
      by (cases "login m c2 w0")
    obtain b2 w2 where n: "navigateToProjects m c2 (captureScreenshot m ''after_login'' w1) = (b2, w2)"
      by (cases "navigateToProjects m c2 (captureScreenshot m ''after_login'' w1)")
    show ?thesis
    proof (cases "b1 \<and> b2")
      case True
      have "\<And>r'. try_ok (run_default m
              (r', [(Init, True), (Login, True), (CaptureScreenshot ''after_login'', True),
                    (NavigateToProjects, True),
                    (CaptureScreenshot ''after_test_support_selection'', True)]))"
        by (rule run_default_ok) (simp_all add: gating_steps_def)
      then show ?thesis
        unfolding run_try_def require_def shot_def
        using True assms by (simp add: i None Let_def c2_def [symmetric] l n)
    next
      case False
      then show ?thesis
        unfolding run_try_def require_def shot_def try_ok_def
        using assms
        by (auto simp: i None Let_def c2_def [symmetric] l n default_flow_def gating_steps_def)
    qed
  qed
qed

text \<open>The \<^verbatim>\<open>catch\<close> and \<^verbatim>\<open>finally\<close> blocks add no step call.\<close>

lemma run_after_try:
  assumes "run_try m e argv (r0, []) = (res, (r1, tr1))"
  shows "\<exists>extra. snd (snd (run m e argv r0)) = tr1 @ extra
           \<and> set (map fst extra) \<subseteq> {CaptureScreenshot ''error'', BrowserClose}
           \<and> (isl res \<longrightarrow> failed (fst (run m e argv r0)))
           \<and> (\<not> isl res \<longrightarrow> fst (run m e argv r0) = Resolved (projr res)
                \<or> (\<exists>err. fst (run m e argv r0) = Rejected err))"
proof -
  obtain err w where c: "browserClose m (world r1) = (err, w)"
    by (cases "browserClose m (world r1)")
  obtain err' w' where c': "browserClose m (captureScreenshot m ''error'' (world r1)) = (err', w')"
    by (cases "browserClose m (captureScreenshot m ''error'' (world r1))")
  show ?thesis
    by (cases res; cases err; cases err'; cases "browser r1")
       (simp_all add: run_def assms shot_def c c')
qed









lemma logNoteOnlyMode_iff:
  "logNoteOnlyMode e \<longleftrightarrow>
     (\<exists>t. e ''TICKET_TITLE'' = Some t \<and> t \<noteq> [])
     \<and> ((\<exists>n. e ''LOG_NOTE'' = Some n \<and> n \<noteq> []) \<or> (\<exists>s. e ''EMAIL_SUBJECT'' = Some s \<and> s \<noteq> []))"
proof -
  have "\<And>x. truthy x \<longleftrightarrow> (\<exists>v. x = Some v \<and> v \<noteq> [])"
    by (case_tac x) simp_all
  then show ?thesis
    by (simp add: logNoteOnlyMode_def)
qed

lemma run_try_log_ok:
  assumes "logNoteOnlyMode e" and "e ''TICKET_TITLE'' = Some t"
  shows "log_ok t (run_try m e argv (r, []))"
proof -
  have tt: "truthy (Some t)"
    using assms by (simp add: logNoteOnlyMode_def)
  obtain err launched w0 where i: "init m (world r) = ((err, launched), w0)"
    by (cases "init m (world r)") auto
  show ?thesis
  proof (cases err)
    case (Some msg)
    then show ?thesis
      unfolding run_try_def log_ok_def
      by (simp add: i log_note_flow_def)
  next
    case None
    define c1 where "c1 =
      (if truthy (js_or (e ''EMAIL_SUBJECT'') (subject_arg argv))
       then (details r)\<lparr>description :=
              assigned (js_or (e ''EMAIL_SUBJECT'') (subject_arg argv)) (description (details r))\<rparr>
       else details r)"
    define c2 where "c2 =
      c1\<lparr>title := t,
         logNote := assigned (js_or (js_or (e ''LOG_NOTE'') (e ''EMAIL_SUBJECT'')) (Some (logNote c1)))
                      (logNote c1)\<rparr>"
    have t2: "title c2 = t" by (simp add: c2_def)
    obtain b1 w1 where l: "login m c2 w0 = (b1, w1)"
      by (cases "login m c2 w0")
    obtain b2 w2 where n: "navigateToProjects m c2 (captureScreenshot m ''after_login'' w1) = (b2, w2)"
      by (cases "navigateToProjects m c2 (captureScreenshot m ''after_login'' w1)")
    obtain b3 w3 where
      ot: "openTicketByTitle m t c2 (captureScreenshot m ''after_test_support_selection'' w2) = (b3, w3)"
      by (cases "openTicketByTitle m t c2 (captureScreenshot m ''after_test_support_selection'' w2)")
    obtain b4 w4 where
      a: "addLogNote m c2 (captureScreenshot m ''after_open_existing_ticket'' w3) = (b4, w4)"
      by (cases "addLogNote m c2 (captureScreenshot m ''after_open_existing_ticket'' w3)")
    have c2': "c1\<lparr>title := assigned (js_or (e ''TICKET_TITLE'') (Some (title c1))) (title c1),
                  logNote := assigned (js_or (js_or (e ''LOG_NOTE'') (e ''EMAIL_SUBJECT''))
                                         (Some (logNote c1))) (logNote c1)\<rparr> = c2"
      using tt by (simp add: c2_def assms(2) js_or_def)
    show ?thesis
      unfolding run_try_def run_log_note_only_def require_def shot_def log_ok_def
      using assms(1)
      by (cases b1; cases b2; cases b3; cases b4)
         (simp_all add: i None Let_def c1_def [symmetric] c2' t2 l n ot a log_note_flow_def)
  qed
qed




section \<open>The job store invariant\<close>

lemma run_settles: "settled (fst (run m e argv r0))"
proof -
  obtain res r1 tr1 where t: "run_try m e argv (r0, []) = (res, (r1, tr1))"
    by (cases "run_try m e argv (r0, [])") auto
  from run_after_try [OF t]
  have f: "isl res \<longrightarrow> failed (fst (run m e argv r0))"
    and r: "\<not> isl res \<longrightarrow> fst (run m e argv r0) = Resolved (projr res)
              \<or> (\<exists>err. fst (run m e argv r0) = Rejected err)"
    by blast+
  have v: "\<not> isl res \<longrightarrow> field ''success'' (projr res) = Bool True"
  proof (cases "logNoteOnlyMode e")
    case True
    then obtain tt where tt: "e ''TICKET_TITLE'' = Some tt"
      using logNoteOnlyMode_iff by blast
    from run_try_log_ok [OF True tt, of m argv r0] show ?thesis
      by (simp add: t log_ok_def)
  next
    case False
    from run_try_default_ok [OF False, of m argv r0] show ?thesis
      by (simp add: t try_ok_def)
  qed
  show ?thesis
  proof (cases "fst (run m e argv r0)")
    case (Rejected msg)
    then show ?thesis by simp
  next
    case (Resolved val)
    with f r v show ?thesis
      by (cases "isl res") auto
  qed
qed

lemma job_ok_finish: "settled outcome \<Longrightarrow> job_ok (finish_job outcome t j)"
  by (cases outcome) (auto simp: job_ok_def finish_job_def)

lemma store_ok_post: "store_ok s \<Longrightarrow> store_ok (snd (post_automate automation uuid t_job t_resp body s))"
  by (auto simp: store_ok_def post_automate_def Let_def ran_def job_ok_def split: promise.splits if_splits)

lemma store_ok_done:
  "store_ok s \<Longrightarrow> settled outcome \<Longrightarrow> store_ok (background_done ref jobId outcome t s)"
  by (auto simp: store_ok_def background_done_def ran_def job_ok_finish split: option.splits if_splits)

text \<open>
  Claim C6. In every state the server can reach by handling \<^verbatim>\<open>/automate\<close> requests and by
  background runs ending (the status endpoint changes nothing), every stored job has a status
  among \<^verbatim>\<open>running\<close>, \<^verbatim>\<open>completed\<close> and \<^verbatim>\<open>failed\<close>, and its \<open>completedAt\<close> and \<open>result\<close>
  are \<^verbatim>\<open>null\<close> exactly while the status is \<^verbatim>\<open>running\<close>. The outcome of every run is one
  that the reachable states allow for: a run never resolves to \<^verbatim>\<open>null\<close>.
\<close>

theorem job_invariant:
  "reachable s \<Longrightarrow> store_ok s \<and> settled (fst (run m e argv r0))"
proof -
  assume "reachable s"
  then have "store_ok s"
    by (induction rule: reachable.induct)
       (simp_all add: store_ok_post store_ok_done, simp add: store_ok_def init_server_def)
  with run_settles [of m e argv r0] show ?thesis by blast
qed

theorem job_invariant_witness:
  "reachable (background_done 0 ''job-1'' (Rejected ''close failed'') 20
      (snd (post_automate (\<lambda>e. Rejected ''unused'') ''job-1'' 10 11
         [(''waitForResponse'', JBool False)] (init_server Map.empty))))
   \<and> job_ok \<lparr>job_id = ''job-1'', status = ''failed'', createdAt = 10,
        result = Obj [(''success'', Bool False), (''error'', Str ''close failed'')],
        completedAt = Some 20\<rparr>"
proof -
  let ?s = "background_done 0 ''job-1'' (Rejected ''close failed'') 20
      (snd (post_automate (\<lambda>e. Rejected ''unused'') ''job-1'' 10 11
         [(''waitForResponse'', JBool False)] (init_server Map.empty)))"
  have r: "reachable ?s"
    by (intro reachable.intros) simp
  have j: "jobs ?s ''job-1'' = Some (0, \<lparr>job_id = ''job-1'', status = ''failed'', createdAt = 10,
        result = Obj [(''success'', Bool False), (''error'', Str ''close failed'')],
        completedAt = Some 20\<rparr>)"
    by (simp add: background_done_def post_automate_def Let_def waitForResponse_def body_get_def
        init_server_def finish_job_def)
  from job_invariant [OF r, of "script_methods None None" Map.empty "[]"
      "new_automation Map.empty CONFIG_ticketDetails [False]"] j
  have "job_ok \<lparr>job_id = ''job-1'', status = ''failed'', createdAt = 10,
        result = Obj [(''success'', Bool False), (''error'', Str ''close failed'')],
        completedAt = Some 20\<rparr>"
    unfolding store_ok_def by (auto simp: ran_def)
  with r show ?thesis by blast
qed

section \<open>The order of the patterns in a chain\<close>





end
